theory Spec2Isabelle
  imports
    Complex_Main
    "HOL-Library.Char_ord"
    "HOL-Library.List_Lexorder"
    "HOL-Library.Product_Lexorder"
    "HOL-Library.Sublist"
    "HOL-Library.Multiset"
begin

section \<open>Smart Real Estate Dashboard: the data pipeline of app.py\<close>

text \<open>
  The script \<^verbatim>\<open>app.py\<close> loads a CSV file into a pandas DataFrame, filters it
  with boolean masks built from the sidebar widgets, and shows aggregates and a
  comparison of selected listings. A DataFrame is modelled as the list of its rows,
  a Series as the list of its values, in index order.

  A value of a numeric column is \<^verbatim>\<open>NaN\<close> (pandas' marker of a missing number), an
  infinity, a finite number, or the negative zero. What an arithmetic operation makes
  of two finite values (the rounding of float64, its overflow, the wrap-around of an
  int64 column) is not fixed here: it is a parameter of the model, the record
  \<open>arith\<close> below. The rules of the special values (NaN, the infinities, the zeros)
  do not depend on it and are written out.
\<close>

subsection \<open>Values\<close>

datatype cell = NaN | NInf | Num real | NZero | PInf

text \<open>The number a cell stands for (0 for the negative zero), and the sign bit.\<close>

fun val :: "cell \<Rightarrow> real" where
  "val (Num r) = r"
| "val _ = 0"

fun is_fin :: "cell \<Rightarrow> bool" where
  "is_fin (Num r) = True"
| "is_fin NZero = True"
| "is_fin _ = False"

fun is_zero :: "cell \<Rightarrow> bool" where
  "is_zero (Num r) = (r = 0)"
| "is_zero NZero = True"
| "is_zero _ = False"

fun signbit :: "cell \<Rightarrow> bool" where
  "signbit (Num r) = (r < 0)"
| "signbit NZero = True"
| "signbit NInf = True"
| "signbit _ = False"

definition inf_of :: "bool \<Rightarrow> cell" where
  "inf_of negative = (if negative then NInf else PInf)"

definition zero_of :: "bool \<Rightarrow> cell" where
  "zero_of negative = (if negative then NZero else Num 0)"

text \<open>
  What \<^verbatim>\<open>pd.read_csv\<close> leaves in a field of one of the five numeric columns: nothing
  (an empty field), a number (the column was inferred numeric) or the field's text
  (the column holds something that is not a number, so it stays an object column).
\<close>

datatype raw = Missing | Number cell | Text string

text \<open>
  The columns of the CSV file that the script reads; \<^verbatim>\<open>'n\<close> is what the five
  numeric columns hold. The five other columns hold text in every row.
\<close>

record 'n row =
  ad_id :: string
  city :: string
  type :: string
  rent :: string
  furnished :: string
  price :: 'n
  area :: 'n
  bedrooms :: 'n
  bathrooms :: 'n
  level :: 'n

text \<open>A row of the DataFrame that \<^verbatim>\<open>load_data\<close> returns: three derived columns more.\<close>

record listing = "cell row" +
  rooms :: cell
  price_per_m2 :: cell
  log_price :: cell

subsection \<open>Arithmetic\<close>

text \<open>
  The arithmetic of the machine on finite values, as a parameter. \<open>add64 a b\<close>,
  \<open>mul64 a b\<close> and \<open>div64 a b\<close> are the sum, the product and the quotient (of a
  divisor that is not zero) as stored, \<open>None\<close> when the operation overflows;
  \<open>sqrt64 a\<close> is the stored square root of a positive \<open>a\<close>; \<open>log1p64 p\<close> is what
  \<^verbatim>\<open>np.log1p\<close> returns for a finite \<open>p\<close> above -1; \<open>sum64\<close> is the sum of a Series of
  finite values as the reduction computes it (the order of the additions is the
  library's).
\<close>

record arith =
  add64 :: "real \<Rightarrow> real \<Rightarrow> real option"
  mul64 :: "real \<Rightarrow> real \<Rightarrow> real option"
  div64 :: "real \<Rightarrow> real \<Rightarrow> real option"
  sqrt64 :: "real \<Rightarrow> real"
  log1p64 :: "real \<Rightarrow> real"
  sum64 :: "real list \<Rightarrow> cell"

text \<open>\<^verbatim>\<open>a <= b\<close> on floats: false as soon as one side is NaN; the two zeros are equal.\<close>

fun fle :: "cell \<Rightarrow> cell \<Rightarrow> bool" where
  "fle NaN _ = False"
| "fle _ NaN = False"
| "fle NInf _ = True"
| "fle _ PInf = True"
| "fle PInf _ = False"
| "fle _ NInf = False"
| "fle a b = (val a \<le> val b)"

text \<open>
  \<^verbatim>\<open>a + b\<close>. NaN propagates, the two infinities of opposite sign give NaN, an
  infinity absorbs a finite value, two negative zeros give the negative zero; an
  overflow gives the infinity of the sign of the sum.
\<close>

definition fadd :: "arith \<Rightarrow> cell \<Rightarrow> cell \<Rightarrow> cell" where
  "fadd m x y =
     (if x = NaN \<or> y = NaN then NaN
      else if is_fin x \<and> is_fin y then
        (if x = NZero \<and> y = NZero then NZero
         else case add64 m (val x) (val y) of
                None \<Rightarrow> inf_of (val x + val y < 0)
              | Some r \<Rightarrow> Num r)
      else if (x = PInf \<and> y = NInf) \<or> (x = NInf \<and> y = PInf) then NaN
      else if x = PInf \<or> y = PInf then PInf
      else NInf)"

text \<open>
  \<^verbatim>\<open>a / b\<close>. NaN propagates; 0 / 0 and infinity / infinity are NaN; a finite value
  that is not zero over a zero is an infinity, a finite value over an infinity is a
  zero, and the sign of the result is the exclusive or of the two signs.
\<close>

definition fdiv :: "arith \<Rightarrow> cell \<Rightarrow> cell \<Rightarrow> cell" where
  "fdiv m x y =
     (if x = NaN \<or> y = NaN then NaN
      else if is_fin x \<and> is_fin y then
        (if is_zero y then (if is_zero x then NaN else inf_of (signbit x \<noteq> signbit y))
         else if is_zero x then zero_of (signbit x \<noteq> signbit y)
         else case div64 m (val x) (val y) of
                None \<Rightarrow> inf_of (signbit x \<noteq> signbit y)
              | Some r \<Rightarrow> if r = 0 then zero_of (signbit x \<noteq> signbit y) else Num r)
      else if is_fin x then zero_of (signbit x \<noteq> signbit y)
      else if is_fin y then inf_of (signbit x \<noteq> signbit y)
      else NaN)"

text \<open>
  \<^verbatim>\<open>np.log1p\<close>: the logarithm of \<open>1 + x\<close>. Below -1 it is NaN, at -1 minus
  infinity, and a zero is returned as it is.
\<close>

definition log1p :: "arith \<Rightarrow> cell \<Rightarrow> cell" where
  "log1p m x =
     (if x = NaN \<or> x = NInf then NaN
      else if x = PInf then PInf
      else if val x < - 1 then NaN
      else if val x = - 1 then NInf
      else if is_zero x then x
      else Num (log1p64 m (val x)))"

text \<open>\<^verbatim>\<open>-a\<close> and \<^verbatim>\<open>a - b\<close>: the sign is flipped, and a difference is the sum with the opposite.\<close>

definition fneg :: "cell \<Rightarrow> cell" where
  "fneg x =
     (case x of
        NaN \<Rightarrow> NaN | NInf \<Rightarrow> PInf | PInf \<Rightarrow> NInf | NZero \<Rightarrow> Num 0
      | Num r \<Rightarrow> if r = 0 then NZero else Num (- r))"

definition fsub :: "arith \<Rightarrow> cell \<Rightarrow> cell \<Rightarrow> cell" where
  "fsub m x y = fadd m x (fneg y)"

text \<open>
  \<^verbatim>\<open>a * b\<close>. NaN propagates; a zero times an infinity is NaN; a zero times a finite
  value is a zero; the sign of the result is the exclusive or of the two signs.
\<close>

definition fmul :: "arith \<Rightarrow> cell \<Rightarrow> cell \<Rightarrow> cell" where
  "fmul m x y =
     (if x = NaN \<or> y = NaN then NaN
      else if is_fin x \<and> is_fin y then
        (if is_zero x \<or> is_zero y then zero_of (signbit x \<noteq> signbit y)
         else case mul64 m (val x) (val y) of
                None \<Rightarrow> inf_of (signbit x \<noteq> signbit y)
              | Some r \<Rightarrow> if r = 0 then zero_of (signbit x \<noteq> signbit y) else Num r)
      else if is_zero x \<or> is_zero y then NaN
      else inf_of (signbit x \<noteq> signbit y))"

text \<open>\<^verbatim>\<open>sqrt(a)\<close>: NaN below zero, a zero as it is.\<close>

definition fsqrt :: "arith \<Rightarrow> cell \<Rightarrow> cell" where
  "fsqrt m x =
     (if x = NaN \<or> x = NInf then NaN
      else if x = PInf then PInf
      else if is_zero x then x
      else if val x < 0 then NaN
      else Num (sqrt64 m (val x)))"

subsection \<open>Series and boolean masks\<close>

text \<open>\<^verbatim>\<open>df[c]\<close>: the column as a Series.\<close>

definition col :: "('r \<Rightarrow> 'a) \<Rightarrow> 'r list \<Rightarrow> 'a list" where
  "col c df = map c df"

text \<open>\<^verbatim>\<open>s.isin(values)\<close>\<close>

definition isin :: "'a list \<Rightarrow> 'a list \<Rightarrow> bool list" where
  "isin s vals = map (\<lambda>v. v \<in> set vals) s"

text \<open>\<^verbatim>\<open>s.between(left, right)\<close>, both ends included: \<^verbatim>\<open>(s >= left) & (s <= right)\<close>.\<close>

definition between :: "cell list \<Rightarrow> cell \<Rightarrow> cell \<Rightarrow> bool list" where
  "between s left right = map (\<lambda>v. fle left v \<and> fle v right) s"

text \<open>\<^verbatim>\<open>a & b\<close> on two masks over the same index.\<close>

definition mask_and :: "bool list \<Rightarrow> bool list \<Rightarrow> bool list" where
  "mask_and a b = map2 (\<and>) a b"

text \<open>\<^verbatim>\<open>df[mask]\<close>: the rows whose mask entry is True, in the order of \<^verbatim>\<open>df\<close>.\<close>

definition select_rows :: "'r list \<Rightarrow> bool list \<Rightarrow> 'r list" where
  "select_rows df msk = map fst (filter snd (zip df msk))"

subsection \<open>Sidebar filters (app.py, lines 44-83)\<close>

text \<open>
  The widget values the mask is built from. The two sliders are created with
  \<^verbatim>\<open>int\<close> bounds and return a pair of ints; the two select-sliders return a pair of
  values of the column.
\<close>

record filter_spec =
  cities :: "string list"
  prop_types :: "string list"
  rent_opts :: "string list"
  furn_opts :: "string list"
  sel_price :: "int \<times> int"
  sel_area :: "int \<times> int"
  sel_bed :: "cell \<times> cell"
  sel_bath :: "cell \<times> cell"

definition of_int_cell :: "int \<Rightarrow> cell" where
  "of_int_cell i = Num (real_of_int i)"

definition df_filtered :: "listing list \<Rightarrow> filter_spec \<Rightarrow> listing list" where
  "df_filtered df S =
     select_rows df
       (mask_and (mask_and (mask_and (mask_and (mask_and (mask_and (mask_and
          (isin (col city df) (cities S))
          (isin (col type df) (prop_types S)))
          (isin (col rent df) (rent_opts S)))
          (isin (col furnished df) (furn_opts S)))
          (between (col price df) (of_int_cell (fst (sel_price S))) (of_int_cell (snd (sel_price S)))))
          (between (col area df) (of_int_cell (fst (sel_area S))) (of_int_cell (snd (sel_area S)))))
          (between (col bedrooms df) (fst (sel_bed S)) (snd (sel_bed S))))
          (between (col bathrooms df) (fst (sel_bath S)) (snd (sel_bath S))))"

text \<open>The clauses of a filter, for one listing.\<close>

definition passes :: "filter_spec \<Rightarrow> listing \<Rightarrow> bool" where
  "passes S l \<longleftrightarrow>
     city l \<in> set (cities S) \<and> type l \<in> set (prop_types S) \<and>
     rent l \<in> set (rent_opts S) \<and> furnished l \<in> set (furn_opts S) \<and>
     fle (of_int_cell (fst (sel_price S))) (price l) \<and> fle (price l) (of_int_cell (snd (sel_price S))) \<and>
     fle (of_int_cell (fst (sel_area S))) (area l) \<and> fle (area l) (of_int_cell (snd (sel_area S))) \<and>
     fle (fst (sel_bed S)) (bedrooms l) \<and> fle (bedrooms l) (snd (sel_bed S)) \<and>
     fle (fst (sel_bath S)) (bathrooms l) \<and> fle (bathrooms l) (snd (sel_bath S))"

subsection \<open>Loading (app.py, lines 22-34)\<close>

text \<open>
  \<^verbatim>\<open>pd.to_numeric(s, errors="coerce")\<close> on one value. A number stays, an empty field
  is NaN, a text is parsed and becomes NaN when it is not a number. The parser of
  pandas is the parameter \<open>parse\<close>.
\<close>

definition to_numeric :: "(string \<Rightarrow> cell option) \<Rightarrow> raw \<Rightarrow> cell" where
  "to_numeric parse v =
     (case v of
        Missing \<Rightarrow> NaN
      | Number x \<Rightarrow> x
      | Text s \<Rightarrow> (case parse s of None \<Rightarrow> NaN | Some x \<Rightarrow> x))"

text \<open>
  The loop \<^verbatim>\<open>for c in num_cols: df[c] = pd.to_numeric(df[c], errors="coerce")\<close>
  with \<^verbatim>\<open>num_cols = ["price", "area", "bedrooms", "bathrooms", "level"]\<close>, on one row.
\<close>

definition coerce_num_cols :: "(string \<Rightarrow> cell option) \<Rightarrow> raw row \<Rightarrow> cell row" where
  "coerce_num_cols parse r =
     \<lparr>ad_id = ad_id r, city = city r, type = type r, rent = rent r,
      furnished = furnished r,
      price = to_numeric parse (price r),
      area = to_numeric parse (area r),
      bedrooms = to_numeric parse (bedrooms r),
      bathrooms = to_numeric parse (bathrooms r),
      level = to_numeric parse (level r)\<rparr>"

text \<open>\<^verbatim>\<open>df.dropna(subset=["price", "area"], inplace=True)\<close>\<close>

definition dropna_price_area :: "cell row list \<Rightarrow> cell row list" where
  "dropna_price_area df = filter (\<lambda>r. price r \<noteq> NaN \<and> area r \<noteq> NaN) df"

text \<open>
  The three assignments under \<^verbatim>\<open># Feature engineering\<close>, on one row:
  \<^verbatim>\<open>df["rooms"] = df["bedrooms"] + df["bathrooms"]\<close>,
  \<^verbatim>\<open>df["price_per_m2"] = df["price"] / df["area"]\<close>,
  \<^verbatim>\<open>df["log_price"] = np.log1p(df["price"])\<close>.
\<close>

definition feature_engineering :: "arith \<Rightarrow> cell row \<Rightarrow> listing" where
  "feature_engineering m r =
     \<lparr>ad_id = ad_id r, city = city r, type = type r, rent = rent r,
      furnished = furnished r,
      price = price r, area = area r, bedrooms = bedrooms r,
      bathrooms = bathrooms r, level = level r,
      rooms = fadd m (bedrooms r) (bathrooms r),
      price_per_m2 = fdiv m (price r) (area r),
      log_price = log1p m (price r)\<rparr>"

text \<open>
  \<^verbatim>\<open>load_data\<close>, from the rows that \<^verbatim>\<open>pd.read_csv(path)\<close> returned (when the file
  cannot be read, \<^verbatim>\<open>read_csv\<close> raises and nothing below runs).
\<close>

definition load_data :: "arith \<Rightarrow> (string \<Rightarrow> cell option) \<Rightarrow> raw row list \<Rightarrow> listing list" where
  "load_data m parse csv =
     map (feature_engineering m) (dropna_price_area (map (coerce_num_cols parse) csv))"

subsection \<open>Compare tab (app.py, lines 140-160)\<close>

text \<open>\<^verbatim>\<open>comp_df = df_filtered[df_filtered["ad_id"].isin(compare_ids)]\<close>\<close>

definition comp_df :: "listing list \<Rightarrow> string list \<Rightarrow> listing list" where
  "comp_df view compare_ids = select_rows view (isin (col ad_id view) compare_ids)"

text \<open>One trace of the radar chart: \<^verbatim>\<open>go.Scatterpolar(r=..., theta=..., name=...)\<close>.\<close>

datatype scatterpolar = Scatterpolar "cell list" "string list" string

definition radar_cols :: "string list" where
  "radar_cols = [''price'', ''area'', ''bedrooms'', ''bathrooms'', ''rooms'']"

definition radar_trace :: "listing \<Rightarrow> scatterpolar" where
  "radar_trace l =
     Scatterpolar [price l, area l, bedrooms l, bathrooms l, rooms l] radar_cols
       (take 12 (ad_id l))"

text \<open>
  What the tab shows: the \<^verbatim>\<open>st.info\<close> message, or the comparison table and, when
  the inner \<^verbatim>\<open>if\<close> is taken, the traces of the radar chart.
\<close>

datatype compare_view =
    Info string
  | Comparison "listing list" "scatterpolar list option"

definition compare_tab :: "listing list \<Rightarrow> string list \<Rightarrow> compare_view" where
  "compare_tab view compare_ids =
     (if length compare_ids < 2
      then Info ''Select at least two Ad IDs from the sidebar to compare.''
      else
        let comp = comp_df view compare_ids
        in Comparison comp
             (if length compare_ids \<le> 5 then Some (map radar_trace comp) else None))"

text \<open>
  The contract of the specification for the same step, to compare with: the listings
  of the ids, in the order of the ids, an id that is not in the view giving nothing.
\<close>

definition resolveComparison_spec :: "listing list \<Rightarrow> string list \<Rightarrow> listing list" where
  "resolveComparison_spec view ids =
     concat (map (\<lambda>i. filter (\<lambda>l. ad_id l = i) view) ids)"

subsection \<open>Aggregates (app.py, lines 96-127)\<close>

text \<open>
  The order in which a sort puts floats that are not NaN: minus infinity, the finite
  numbers (the two zeros together), plus infinity.
\<close>

fun sort_rank :: "cell \<Rightarrow> nat \<times> real" where
  "sort_rank NInf = (0, 0)"
| "sort_rank (Num x) = (1, x)"
| "sort_rank NZero = (1, 0)"
| "sort_rank PInf = (2, 0)"
| "sort_rank NaN = (3, 0)"

text \<open>
  The sum of a Series of values that are not NaN: NaN when both infinities are in
  it, the infinity that is in it, or the sum of its finite values.
\<close>

definition fsum :: "arith \<Rightarrow> cell list \<Rightarrow> cell" where
  "fsum m vals =
     (if PInf \<in> set vals \<and> NInf \<in> set vals then NaN
      else if PInf \<in> set vals then PInf
      else if NInf \<in> set vals then NInf
      else sum64 m (map val vals))"

text \<open>
  \<^verbatim>\<open>s.mean()\<close> (\<^verbatim>\<open>skipna=True\<close>): the sum of the values that are not NaN over their
  number, and NaN when there is none.
\<close>

definition mean_series :: "arith \<Rightarrow> cell list \<Rightarrow> cell" where
  "mean_series m s =
     (let vals = filter (\<lambda>v. v \<noteq> NaN) s; count = length vals
      in if 0 < count then fdiv m (fsum m vals) (Num (real count)) else NaN)"

text \<open>
  \<^verbatim>\<open>s.median()\<close> (\<^verbatim>\<open>skipna=True\<close>): the middle of the sorted values that are not
  NaN, the mean of the two middle ones when their number is even, and NaN when there is
  none.
\<close>

definition median_series :: "arith \<Rightarrow> cell list \<Rightarrow> cell" where
  "median_series m s =
     (let vals = sort_key sort_rank (filter (\<lambda>v. v \<noteq> NaN) s); n = length vals
      in if n = 0 then NaN
         else if odd n then vals ! (n div 2)
         else fdiv m (fadd m (vals ! (n div 2 - 1)) (vals ! (n div 2))) (Num 2))"

text \<open>
  \<^verbatim>\<open>df.groupby(key)[val].mean()\<close>: one entry for each value of the key column, the
  keys in ascending order (\<^verbatim>\<open>sort=True\<close> is the default of \<^verbatim>\<open>groupby\<close>), with the
  mean of the values of the group that are not NaN.
\<close>

definition groupby_mean ::
  "arith \<Rightarrow> ('r \<Rightarrow> string) \<Rightarrow> ('r \<Rightarrow> cell) \<Rightarrow> 'r list \<Rightarrow> (string \<times> cell) list" where
  "groupby_mean m key value df =
     map (\<lambda>k. (k, mean_series m (col value (filter (\<lambda>r. key r = k) df))))
       (sort (remdups (col key df)))"

text \<open>
  \<^verbatim>\<open>s.sort_values(ascending=False)\<close> on a Series of (index, value) entries. pandas
  sets the NaN entries aside, reverses the others, sorts them ascending with
  \<^verbatim>\<open>kind="quicksort"\<close>, reverses the result and puts the NaN entries last. The sort
  of numpy is the parameter \<open>srt\<close>: it is not stable, so the order it leaves among
  entries of equal value is its own.
\<close>

type_synonym sorter =
  "(string \<times> cell \<Rightarrow> nat \<times> real) \<Rightarrow> (string \<times> cell) list \<Rightarrow> (string \<times> cell) list"

definition sort_values_desc :: "sorter \<Rightarrow> (string \<times> cell) list \<Rightarrow> (string \<times> cell) list" where
  "sort_values_desc srt s =
     (let non_nans = filter (\<lambda>e. snd e \<noteq> NaN) s;
          nans = filter (\<lambda>e. snd e = NaN) s
      in rev (srt (\<lambda>e. sort_rank (snd e)) (rev non_nans)) @ nans)"

text \<open>What is known of the sort: it returns the same entries, in ascending order of the key.\<close>

definition sorts :: "sorter \<Rightarrow> bool" where
  "sorts srt \<longleftrightarrow> (\<forall>f xs. mset (srt f xs) = mset xs \<and> sorted (map f (srt f xs)))"

text \<open>
  \<^verbatim>\<open>type_price = df_filtered.groupby("type")["price"].mean().sort_values(ascending=False).reset_index()\<close>
\<close>

definition type_price :: "arith \<Rightarrow> sorter \<Rightarrow> listing list \<Rightarrow> (string \<times> cell) list" where
  "type_price m srt view = sort_values_desc srt (groupby_mean m type price view)"

text \<open>
  The order of two entries of a Series sorted descending: a value that is not NaN
  before NaN, and the greater value first.
\<close>

definition descending :: "string \<times> cell \<Rightarrow> string \<times> cell \<Rightarrow> bool" where
  "descending a b \<longleftrightarrow>
     snd b = NaN \<or> (snd a \<noteq> NaN \<and> sort_rank (snd b) \<le> sort_rank (snd a))"

text \<open>
  The contract of the specification for the same chart, to compare with: the groups in
  the order in which the view first shows them, sorted descending by mean, equal
  means staying in that order.
\<close>

definition first_encountered :: "'a list \<Rightarrow> 'a list" where
  "first_encountered xs = rev (remdups (rev xs))"

definition groupMean_spec ::
  "arith \<Rightarrow> ('r \<Rightarrow> string) \<Rightarrow> ('r \<Rightarrow> cell) \<Rightarrow> 'r list \<Rightarrow> (string \<times> cell) list" where
  "groupMean_spec m key value view =
     sort_values_desc sort_key
       (map (\<lambda>k. (k, mean_series m (col value (filter (\<lambda>r. key r = k) view))))
          (first_encountered (col key view)))"

text \<open>
  \<^verbatim>\<open>df.corr()\<close> (Pearson, \<^verbatim>\<open>min_periods=1\<close>). For each pair of columns pandas runs
  one pass over the rows where both values are finite (the kernel \<^verbatim>\<open>nancorr\<close>),
  updating the number of observations, the two means, the two sums of squared
  deviations and the sum of the products of deviations:
  \<^verbatim>\<open>nobs += 1; dx = vx - meanx; dy = vy - meany;
  meanx += 1. / nobs * dx; meany += 1. / nobs * dy;
  ssqdm_x += (vx - meanx) * dx; ssqdm_y += (vy - meany) * dy;
  covxy += (vx - meanx) * dy\<close>.
\<close>

record welford =
  nobs :: nat
  meanx :: cell
  meany :: cell
  ssqdm_x :: cell
  ssqdm_y :: cell
  covxy :: cell

definition welford_init :: welford where
  "welford_init =
     \<lparr>nobs = 0, meanx = Num 0, meany = Num 0, ssqdm_x = Num 0, ssqdm_y = Num 0, covxy = Num 0\<rparr>"

definition welford_step :: "arith \<Rightarrow> welford \<Rightarrow> cell \<times> cell \<Rightarrow> welford" where
  "welford_step m w v =
     (let vx = fst v; vy = snd v;
          n = nobs w + 1;
          dx = fsub m vx (meanx w);
          dy = fsub m vy (meany w);
          mx = fadd m (meanx w) (fmul m (fdiv m (Num 1) (Num (real n))) dx);
          my = fadd m (meany w) (fmul m (fdiv m (Num 1) (Num (real n))) dy)
      in \<lparr>nobs = n, meanx = mx, meany = my,
          ssqdm_x = fadd m (ssqdm_x w) (fmul m (fsub m vx mx) dx),
          ssqdm_y = fadd m (ssqdm_y w) (fmul m (fsub m vy my) dy),
          covxy = fadd m (covxy w) (fmul m (fsub m vx mx) dy)\<rparr>)"

text \<open>The rows that take part: \<^verbatim>\<open>mask[i, xi] and mask[i, yi]\<close>, the mask being \<^verbatim>\<open>isfinite\<close>.\<close>

definition finite_pairs :: "cell list \<Rightarrow> cell list \<Rightarrow> (cell \<times> cell) list" where
  "finite_pairs xs ys = filter (\<lambda>v. is_fin (fst v) \<and> is_fin (snd v)) (zip xs ys)"

text \<open>
  The entry of two columns: NaN with fewer than \<^verbatim>\<open>min_periods\<close> observations;
  otherwise \<^verbatim>\<open>divisor = sqrt(ssqdm_x * ssqdm_y)\<close>, and \<^verbatim>\<open>covxy / divisor\<close> if
  \<^verbatim>\<open>divisor != 0\<close>, else NaN.
\<close>

definition nancorr_pair :: "arith \<Rightarrow> cell list \<Rightarrow> cell list \<Rightarrow> cell" where
  "nancorr_pair m xs ys =
     (let w = foldl (welford_step m) welford_init (finite_pairs xs ys)
      in if nobs w < 1 then NaN
         else
           let divisor = fsqrt m (fmul m (ssqdm_x w) (ssqdm_y w))
           in if \<not> is_zero divisor then fdiv m (covxy w) divisor else NaN)"

text \<open>
  The matrix: the kernel runs for each column \<open>xi\<close> and each \<open>yi\<close> up to \<open>xi\<close>, and
  stores the value at both places: \<^verbatim>\<open>result[xi, yi] = result[yi, xi] = ...\<close>.
\<close>

definition corr_entry :: "arith \<Rightarrow> ('r \<Rightarrow> cell) list \<Rightarrow> 'r list \<Rightarrow> nat \<Rightarrow> nat \<Rightarrow> cell" where
  "corr_entry m cols df i j =
     (let xi = max i j; yi = min i j
      in nancorr_pair m (col (cols ! xi) df) (col (cols ! yi) df))"

definition corr_matrix :: "arith \<Rightarrow> ('r \<Rightarrow> cell) list \<Rightarrow> 'r list \<Rightarrow> cell list list" where
  "corr_matrix m cols df =
     map (\<lambda>i. map (\<lambda>j. corr_entry m cols df i j) [0..<length cols]) [0..<length cols]"

text \<open>
  \<^verbatim>\<open>corr_cols = ["log_price", "area", "bedrooms", "bathrooms", "rooms", "price_per_m2"]\<close>,
  \<^verbatim>\<open>corr = df_filtered[corr_cols].corr()\<close>
\<close>

definition corr_cols :: "(listing \<Rightarrow> cell) list" where
  "corr_cols = [log_price, area, bedrooms, bathrooms, rooms, price_per_m2]"

definition corr :: "arith \<Rightarrow> listing list \<Rightarrow> cell list list" where
  "corr m view = corr_matrix m corr_cols view"

text \<open>
  The coefficient of Pearson of a list of pairs of numbers, as the textbooks define it:
  the sum of the products of the deviations from the two means, over the product of
  the square roots of the two sums of squared deviations.
\<close>

definition mean_of :: "real list \<Rightarrow> real" where
  "mean_of xs = sum_list xs / real (length xs)"

definition sq_dev :: "real list \<Rightarrow> real" where
  "sq_dev xs = (\<Sum>x\<leftarrow>xs. (x - mean_of xs) * (x - mean_of xs))"

definition co_dev :: "(real \<times> real) list \<Rightarrow> real" where
  "co_dev ps =
     (\<Sum>p\<leftarrow>ps. (fst p - mean_of (map fst ps)) * (snd p - mean_of (map snd ps)))"

definition pearson_r :: "(real \<times> real) list \<Rightarrow> real" where
  "pearson_r ps = co_dev ps / (sqrt (sq_dev (map fst ps)) * sqrt (sq_dev (map snd ps)))"

text \<open>The observations of two columns: the pairs of numbers of the rows where both are finite.\<close>

definition observations :: "('r \<Rightarrow> cell) \<Rightarrow> ('r \<Rightarrow> cell) \<Rightarrow> 'r list \<Rightarrow> (real \<times> real) list" where
  "observations cx cy df =
     map (\<lambda>v. (val (fst v), val (snd v))) (finite_pairs (col cx df) (col cy df))"

text \<open>
  The identities of float64 that the kernel relies on with a single observation:
  adding zero, multiplying by one and dividing one by one change nothing, and a value
  minus itself is zero.
\<close>

definition float_identities :: "arith \<Rightarrow> bool" where
  "float_identities m \<longleftrightarrow>
     (\<forall>a. add64 m a 0 = Some a \<and> add64 m 0 a = Some a \<and> add64 m a (- a) = Some 0 \<and>
          mul64 m 1 a = Some a) \<and>
     div64 m 1 1 = Some 1"

subsection \<open>Example data\<close>

text \<open>A row of a CSV file, and the listing that \<^verbatim>\<open>load_data\<close> makes of it.\<close>

definition csv_row :: "string \<Rightarrow> string \<Rightarrow> real \<Rightarrow> real \<Rightarrow> raw row" where
  "csv_row i t p a =
     \<lparr>ad_id = i, city = ''Cairo'', type = t, rent = ''sale'', furnished = ''no'',
      price = Number (Num p), area = Number (Num a),
      bedrooms = Number (Num 2), bathrooms = Number (Num 1), level = Number (Num 3)\<rparr>"

definition no_parse :: "string \<Rightarrow> cell option" where
  "no_parse s = None"

text \<open>
  An arithmetic that never rounds and never overflows, for the examples. On the
  operands of the examples (2 + 1, 100 / 10, the mean of 100 and 200) the float64
  operations are exact as well and give these very values.
\<close>

definition exact_arith :: arith where
  "exact_arith =
     \<lparr>add64 = (\<lambda>a b. Some (a + b)), mul64 = (\<lambda>a b. Some (a * b)),
      div64 = (\<lambda>a b. Some (a / b)), sqrt64 = sqrt,
      log1p64 = (\<lambda>p. ln (1 + p)), sum64 = (\<lambda>xs. Num (sum_list xs))\<rparr>"

definition loaded :: "arith \<Rightarrow> string \<Rightarrow> string \<Rightarrow> real \<Rightarrow> real \<Rightarrow> listing" where
  "loaded m i t p a = feature_engineering m (coerce_num_cols no_parse (csv_row i t p a))"

definition price_100_150 :: filter_spec where
  "price_100_150 =
     \<lparr>cities = [''Cairo''], prop_types = [''Villa'', ''Flat''], rent_opts = [''sale''],
      furn_opts = [''no''], sel_price = (100, 150), sel_area = (0, 1000),
      sel_bed = (Num 0, Num 10), sel_bath = (Num 0, Num 10)\<rparr>"

definition three_types :: "listing list" where
  "three_types =
     [loaded exact_arith ''1'' ''Villa'' 100 10, loaded exact_arith ''2'' ''Flat'' 100 20,
      loaded exact_arith ''3'' ''Studio'' 100 30]"

definition four_listings :: "listing list" where
  "four_listings =
     [loaded exact_arith ''1'' ''Villa'' 100 10, loaded exact_arith ''2'' ''Studio'' 300 20,
      loaded exact_arith ''3'' ''Flat'' 200 30, loaded exact_arith ''4'' ''Villa'' 200 40]"

text \<open>Two listings whose areas grow as their bedrooms fall.\<close>

definition two_listings :: "listing list" where
  "two_listings =
     load_data exact_arith no_parse
       [(csv_row ''A'' ''Villa'' 100 10)\<lparr>bedrooms := Number (Num 4)\<rparr>,
        csv_row ''B'' ''Flat'' 200 20]"

section \<open>Properties\<close>

subsection \<open>Masks\<close>

lemma select_rows_map: "select_rows df (map p df) = filter p df"
  by (induction df) (simp_all add: select_rows_def)

lemma mask_and_map: "mask_and (map p df) (map q df) = map (\<lambda>x. p x \<and> q x) df"
  by (induction df) (simp_all add: mask_and_def)

lemma isin_col: "isin (col c df) vals = map (\<lambda>x. c x \<in> set vals) df"
  by (simp add: isin_def col_def)

lemma between_col: "between (col c df) lo hi = map (\<lambda>x. fle lo (c x) \<and> fle (c x) hi) df"
  by (simp add: between_def col_def)

lemma df_filtered_filter: "df_filtered df S = filter (passes S) df"
proof -
  have "(\<lambda>l. passes S l) = (\<lambda>l. (((((((city l \<in> set (cities S) \<and> type l \<in> set (prop_types S)) \<and>
     rent l \<in> set (rent_opts S)) \<and> furnished l \<in> set (furn_opts S)) \<and>
     (fle (of_int_cell (fst (sel_price S))) (price l) \<and> fle (price l) (of_int_cell (snd (sel_price S))))) \<and>
     (fle (of_int_cell (fst (sel_area S))) (area l) \<and> fle (area l) (of_int_cell (snd (sel_area S))))) \<and>
     (fle (fst (sel_bed S)) (bedrooms l) \<and> fle (bedrooms l) (snd (sel_bed S)))) \<and>
     (fle (fst (sel_bath S)) (bathrooms l) \<and> fle (bathrooms l) (snd (sel_bath S)))))"
    by (simp add: passes_def fun_eq_iff)
  then show ?thesis
    unfolding df_filtered_def isin_col between_col mask_and_map select_rows_map
    by simp
qed

lemmas ex_defs =
  loaded_def csv_row_def no_parse_def feature_engineering_def coerce_num_cols_def
  to_numeric_def price_100_150_def of_int_cell_def

lemma comp_df_filter: "comp_df view ids = filter (\<lambda>l. ad_id l \<in> set ids) view"
  by (simp add: comp_df_def isin_col select_rows_map)

subsection \<open>Filter\<close>

text \<open>
  Claim C1. A listing is in \<^verbatim>\<open>df_filtered\<close> exactly when it is a row of the table,
  its city, type, listing kind and furnished values are among the selected ones, and
  its price, area, bedrooms and bathrooms each lie between the two ends of the selected
  range, ends included.
\<close>

theorem filter_sound_complete:
  "l \<in> set (df_filtered df S) \<longleftrightarrow>
     l \<in> set df \<and>
     city l \<in> set (cities S) \<and> type l \<in> set (prop_types S) \<and>
     rent l \<in> set (rent_opts S) \<and> furnished l \<in> set (furn_opts S) \<and>
     fle (of_int_cell (fst (sel_price S))) (price l) \<and> fle (price l) (of_int_cell (snd (sel_price S))) \<and>
     fle (of_int_cell (fst (sel_area S))) (area l) \<and> fle (area l) (of_int_cell (snd (sel_area S))) \<and>
     fle (fst (sel_bed S)) (bedrooms l) \<and> fle (bedrooms l) (snd (sel_bed S)) \<and>
     fle (fst (sel_bath S)) (bathrooms l) \<and> fle (bathrooms l) (snd (sel_bath S))"
  by (simp add: df_filtered_filter passes_def)

theorem filter_sound_complete_witness:
  "\<forall>m. loaded m ''A'' ''Villa'' 100 10
     \<in> set (df_filtered [loaded m ''A'' ''Villa'' 100 10, loaded m ''B'' ''Flat'' 200 20] price_100_150) \<and>
   loaded m ''B'' ''Flat'' 200 20
     \<notin> set (df_filtered [loaded m ''A'' ''Villa'' 100 10, loaded m ''B'' ''Flat'' 200 20] price_100_150)"
proof
  fix m
  show "loaded m ''A'' ''Villa'' 100 10
     \<in> set (df_filtered [loaded m ''A'' ''Villa'' 100 10, loaded m ''B'' ''Flat'' 200 20] price_100_150) \<and>
   loaded m ''B'' ''Flat'' 200 20
     \<notin> set (df_filtered [loaded m ''A'' ''Villa'' 100 10, loaded m ''B'' ''Flat'' 200 20] price_100_150)"
    using filter_sound_complete [of "loaded m ''A'' ''Villa'' 100 10"
          "[loaded m ''A'' ''Villa'' 100 10, loaded m ''B'' ''Flat'' 200 20]" price_100_150]
        filter_sound_complete [of "loaded m ''B'' ''Flat'' 200 20"
          "[loaded m ''A'' ''Villa'' 100 10, loaded m ''B'' ''Flat'' 200 20]" price_100_150]
    by (simp add: ex_defs)
qed

subsection \<open>Comparison\<close>

text \<open>
  Claim C2, as stated, fails: the ids \<^verbatim>\<open>["B", "A"]\<close> on the view with the rows A, B
  give the rows A, B (the order of the view), where the contract gives B, A.
\<close>

theorem comp_df_order_counterexample:
  "map ad_id (comp_df [loaded exact_arith ''A'' ''Villa'' 100 10, loaded exact_arith ''B'' ''Flat'' 200 20] [''B'', ''A''])
     = [''A'', ''B''] \<and>
   map ad_id (resolveComparison_spec [loaded exact_arith ''A'' ''Villa'' 100 10, loaded exact_arith ''B'' ''Flat'' 200 20] [''B'', ''A''])
     = [''B'', ''A'']"
  by (simp add: comp_df_filter resolveComparison_spec_def ex_defs)

text \<open>
  Claim C2, amended. \<^verbatim>\<open>comp_df\<close> is the rows of the view whose \<^verbatim>\<open>ad_id\<close> is among
  the ids, in the order of the view; every row of it has one of the ids, and an id
  that no row of the view has changes nothing.
\<close>

theorem comp_df_view_order:
  "comp_df view ids = filter (\<lambda>l. ad_id l \<in> set ids) view \<and>
   subseq (comp_df view ids) view \<and>
   (\<forall>l \<in> set (comp_df view ids). ad_id l \<in> set ids) \<and>
   (\<forall>i. i \<notin> ad_id ` set view \<longrightarrow> comp_df view (i # ids) = comp_df view ids)"
proof -
  have "\<And>i. i \<notin> ad_id ` set view \<Longrightarrow>
      filter (\<lambda>l. ad_id l \<in> set (i # ids)) view = filter (\<lambda>l. ad_id l \<in> set ids) view"
    by (rule filter_cong) auto
  then show ?thesis
    by (simp add: comp_df_filter)
qed

theorem comp_df_view_order_witness:
  "\<forall>m. comp_df [loaded m ''A'' ''Villa'' 100 10, loaded m ''B'' ''Flat'' 200 20] [''X'', ''B'', ''A'']
     = [loaded m ''A'' ''Villa'' 100 10, loaded m ''B'' ''Flat'' 200 20]"
proof
  fix m
  show "comp_df [loaded m ''A'' ''Villa'' 100 10, loaded m ''B'' ''Flat'' 200 20] [''X'', ''B'', ''A'']
     = [loaded m ''A'' ''Villa'' 100 10, loaded m ''B'' ''Flat'' 200 20]"
    using comp_df_view_order [of "[loaded m ''A'' ''Villa'' 100 10, loaded m ''B'' ''Flat'' 200 20]" "[''X'', ''B'', ''A'']"]
    by (simp add: ex_defs)
qed

lemmas cell_defs =
  fadd_def fsub_def fneg_def fmul_def fdiv_def fsqrt_def log1p_def inf_of_def zero_of_def
  exact_arith_def

subsection \<open>Comparison gates\<close>




text \<open>
  Claim C9. With more than 5 ids selected, the tab shows the comparison table of the
  resolved rows and no radar trace, however few of the ids resolve.
\<close>

theorem radar_gate_on_selected:
  "5 < length ids \<Longrightarrow> compare_tab view ids = Comparison (comp_df view ids) None"
  by (simp add: compare_tab_def Let_def)

theorem radar_gate_on_selected_witness:
  "\<forall>m. 5 < length [''A'', ''P'', ''Q'', ''R'', ''S'', ''T''] \<and>
   compare_tab [loaded m ''A'' ''Villa'' 100 10] [''A'', ''P'', ''Q'', ''R'', ''S'', ''T'']
     = Comparison [loaded m ''A'' ''Villa'' 100 10] None"
proof
  fix m
  show "5 < length [''A'', ''P'', ''Q'', ''R'', ''S'', ''T''] \<and>
   compare_tab [loaded m ''A'' ''Villa'' 100 10] [''A'', ''P'', ''Q'', ''R'', ''S'', ''T'']
     = Comparison [loaded m ''A'' ''Villa'' 100 10] None"
    using radar_gate_on_selected [of "[''A'', ''P'', ''Q'', ''R'', ''S'', ''T'']" "[loaded m ''A'' ''Villa'' 100 10]"]
    by (simp add: comp_df_filter ex_defs)
qed

subsection \<open>Loading\<close>

text \<open>
  The rows of \<^verbatim>\<open>load_data\<close>: the coerced rows with a price and an area, with
  their derived columns.
\<close>

lemma load_data_mem:
  "l \<in> set (load_data m parse csv) \<longleftrightarrow>
     (\<exists>r \<in> set csv. l = feature_engineering m (coerce_num_cols parse r) \<and>
        price (coerce_num_cols parse r) \<noteq> NaN \<and> area (coerce_num_cols parse r) \<noteq> NaN)"
  by (auto simp: load_data_def dropna_price_area_def)

lemma fadd_NaN: "fadd m x y = NaN \<longleftrightarrow>
    x = NaN \<or> y = NaN \<or> (x = PInf \<and> y = NInf) \<or> (x = NInf \<and> y = PInf)"
  by (cases x; cases y) (auto simp: fadd_def inf_of_def split: option.splits)






text \<open>
  Claim C10, as stated, fails for the level column: a row whose level is not a number
  is kept and its rooms value is 3, not missing.
\<close>

theorem rooms_level_counterexample:
  "to_numeric no_parse (level ((csv_row ''A'' ''Villa'' 100 10)\<lparr>level := Text ''ground''\<rparr>)) = NaN \<and>
   map rooms (load_data exact_arith no_parse [(csv_row ''A'' ''Villa'' 100 10)\<lparr>level := Text ''ground''\<rparr>])
     = [Num 3]"
  by (simp add: load_data_def dropna_price_area_def ex_defs cell_defs)

text \<open>
  Claim C10, amended. A row of the file is kept exactly when its coerced price and
  area are not missing, whatever became of bedrooms, bathrooms and level. When its
  coerced bedrooms or bathrooms is missing, its rooms value is missing; when both are
  finite, rooms is not missing (the level column plays no part).
\<close>

theorem coercion_failure_kept:
  assumes "r \<in> set csv"
  shows "(feature_engineering m (coerce_num_cols parse r) \<in> set (load_data m parse csv) \<longleftrightarrow>
            price (coerce_num_cols parse r) \<noteq> NaN \<and> area (coerce_num_cols parse r) \<noteq> NaN) \<and>
         (bedrooms (coerce_num_cols parse r) = NaN \<or> bathrooms (coerce_num_cols parse r) = NaN \<longrightarrow>
            rooms (feature_engineering m (coerce_num_cols parse r)) = NaN) \<and>
         (is_fin (bedrooms (coerce_num_cols parse r)) \<and> is_fin (bathrooms (coerce_num_cols parse r)) \<longrightarrow>
            rooms (feature_engineering m (coerce_num_cols parse r)) \<noteq> NaN)"
proof -
  let ?c = "coerce_num_cols parse r"
  have "feature_engineering m ?c \<in> set (load_data m parse csv) \<longleftrightarrow>
            price ?c \<noteq> NaN \<and> area ?c \<noteq> NaN"
  proof
    assume "feature_engineering m ?c \<in> set (load_data m parse csv)"
    then obtain r' where e: "feature_engineering m ?c = feature_engineering m (coerce_num_cols parse r')"
      and p: "price (coerce_num_cols parse r') \<noteq> NaN" and a: "area (coerce_num_cols parse r') \<noteq> NaN"
      by (auto simp: load_data_mem)
    from e have "price (feature_engineering m ?c) = price (feature_engineering m (coerce_num_cols parse r'))"
      and "area (feature_engineering m ?c) = area (feature_engineering m (coerce_num_cols parse r'))"
      by simp_all
    then show "price ?c \<noteq> NaN \<and> area ?c \<noteq> NaN"
      using p a by (simp add: feature_engineering_def)
  next
    assume "price ?c \<noteq> NaN \<and> area ?c \<noteq> NaN"
    then show "feature_engineering m ?c \<in> set (load_data m parse csv)"
      using assms by (auto simp: load_data_mem)
  qed
  moreover have "rooms (feature_engineering m ?c) = fadd m (bedrooms ?c) (bathrooms ?c)"
    by (simp add: feature_engineering_def)
  ultimately show ?thesis
    by (auto simp: fadd_NaN)
qed

theorem coercion_failure_kept_witness:
  "\<forall>m. map rooms (load_data m no_parse
      [(csv_row ''A'' ''Villa'' 100 10)\<lparr>bedrooms := Text ''two''\<rparr>,
       (csv_row ''B'' ''Flat'' 200 20)\<lparr>area := Text ''large''\<rparr>]) = [NaN] \<and>
     rooms (loaded m ''C'' ''Flat'' 300 30) \<noteq> NaN"
proof
  fix m
  show "map rooms (load_data m no_parse
      [(csv_row ''A'' ''Villa'' 100 10)\<lparr>bedrooms := Text ''two''\<rparr>,
       (csv_row ''B'' ''Flat'' 200 20)\<lparr>area := Text ''large''\<rparr>]) = [NaN] \<and>
     rooms (loaded m ''C'' ''Flat'' 300 30) \<noteq> NaN"
    using coercion_failure_kept [of "(csv_row ''A'' ''Villa'' 100 10)\<lparr>bedrooms := Text ''two''\<rparr>"
      "[(csv_row ''A'' ''Villa'' 100 10)\<lparr>bedrooms := Text ''two''\<rparr>,
       (csv_row ''B'' ''Flat'' 200 20)\<lparr>area := Text ''large''\<rparr>]" m no_parse]
      coercion_failure_kept [of "csv_row ''C'' ''Flat'' 300 30" "[csv_row ''C'' ''Flat'' 300 30]" m no_parse]
    by (simp add: load_data_def dropna_price_area_def ex_defs)
qed

subsection \<open>Mean and median of an empty view\<close>

text \<open>
  Claim C3, as stated, fails: on the empty view the mean of the price and the median
  of the area are NaN.
\<close>

theorem mean_empty_counterexample:
  "\<not> (mean_series exact_arith (col price ([] :: listing list)) \<noteq> NaN \<and>
      median_series exact_arith (col area ([] :: listing list)) \<noteq> NaN)"
  by (simp add: mean_series_def median_series_def col_def)

text \<open>
  Claim C3, amended. On an empty view, the mean and the median of every column are
  NaN, the missing-value marker of pandas; nothing is raised.
\<close>

theorem mean_median_empty:
  "view = [] \<Longrightarrow> mean_series m (col c view) = NaN \<and> median_series m (col c view) = NaN"
  by (simp add: mean_series_def median_series_def col_def)

theorem mean_median_empty_witness:
  "\<forall>m. df_filtered [loaded m ''B'' ''Flat'' 200 20] price_100_150 = [] \<and>
   mean_series m (col price (df_filtered [loaded m ''B'' ''Flat'' 200 20] price_100_150)) = NaN \<and>
   median_series m (col area (df_filtered [loaded m ''B'' ''Flat'' 200 20] price_100_150)) = NaN"
proof
  fix m
  have e: "df_filtered [loaded m ''B'' ''Flat'' 200 20] price_100_150 = []"
    by (simp add: df_filtered_filter passes_def ex_defs)
  show "df_filtered [loaded m ''B'' ''Flat'' 200 20] price_100_150 = [] \<and>
   mean_series m (col price (df_filtered [loaded m ''B'' ''Flat'' 200 20] price_100_150)) = NaN \<and>
   median_series m (col area (df_filtered [loaded m ''B'' ''Flat'' 200 20] price_100_150)) = NaN"
    using e mean_median_empty [OF e, of m price] mean_median_empty [OF e, of m area] by simp
qed

subsection \<open>Mean price by property type\<close>

lemma sort_values_desc_mset:
  assumes "sorts srt"
  shows "mset (sort_values_desc srt s) = mset s"
proof -
  have "mset (srt (\<lambda>e. sort_rank (snd e)) (rev (filter (\<lambda>e. snd e \<noteq> NaN) s)))
      = mset (filter (\<lambda>e. snd e \<noteq> NaN) s)"
    using assms by (simp add: sorts_def)
  then have "mset (sort_values_desc srt s)
      = mset (filter (\<lambda>e. snd e \<noteq> NaN) s) + mset (filter (\<lambda>e. \<not> snd e \<noteq> NaN) s)"
    by (simp add: sort_values_desc_def Let_def)
  then show ?thesis
    by (simp only: mset_filter multiset_partition [symmetric])
qed

lemma sort_values_desc_sorted:
  assumes "sorts srt"
  shows "sorted_wrt descending (sort_values_desc srt s)"
proof -
  let ?f = "\<lambda>e :: string \<times> cell. sort_rank (snd e)"
  let ?nn = "filter (\<lambda>e. snd e \<noteq> NaN) s"
  let ?na = "filter (\<lambda>e. snd e = NaN) s"
  let ?L = "srt ?f (rev ?nn)"
  have "mset ?L = mset (rev ?nn)"
    using assms by (simp add: sorts_def)
  then have "set ?L = set (rev ?nn)"
    by (rule mset_eq_setD)
  then have nn: "\<forall>a \<in> set ?L. snd a \<noteq> NaN"
    by simp
  have "sorted (map ?f ?L)"
    using assms by (simp add: sorts_def)
  then have "sorted_wrt (\<lambda>a b. ?f a \<le> ?f b) ?L"
    by (simp add: sorted_map)
  then have "sorted_wrt (\<lambda>a b. ?f b \<le> ?f a) (rev ?L)"
    by (simp add: sorted_wrt_rev)
  then have 1: "sorted_wrt descending (rev ?L)"
  proof (rule sorted_wrt_mono_rel [rotated])
    fix a b
    assume "a \<in> set (rev ?L)" "b \<in> set (rev ?L)" "?f b \<le> ?f a"
    then show "descending a b"
      unfolding descending_def using nn by (metis set_rev)
  qed
  have "sorted_wrt (\<lambda>a b. True) ?na"
    by simp
  then have 2: "sorted_wrt descending ?na"
  proof (rule sorted_wrt_mono_rel [rotated])
    fix a b
    assume "a \<in> set ?na" "b \<in> set ?na"
    then show "descending a b"
      unfolding descending_def by simp
  qed
  have 3: "\<forall>a \<in> set (rev ?L). \<forall>b \<in> set ?na. descending a b"
    unfolding descending_def by simp
  show ?thesis
    unfolding sort_values_desc_def Let_def
    using 1 2 3 by (simp add: sorted_wrt_append)
qed

lemma groupby_mean_keys: "map fst (groupby_mean m key value df) = sort (remdups (col key df))"
  by (simp add: groupby_mean_def comp_def)

text \<open>
  Claim C5, amended. Whatever the sort does with equal values, \<^verbatim>\<open>type_price\<close>
  holds one entry for each type of the view, with the mean price of the type, sorted
  descending by mean (a NaN mean last). The order among types of equal mean is the
  one the sort of numpy leaves from groups handed to it in the order of their keys;
  it is not the order of first encounter. The result is a function of the view.
\<close>

theorem type_price_sorted:
  assumes "sorts srt"
  shows "sorted_wrt descending (type_price m srt view) \<and>
         distinct (map fst (type_price m srt view)) \<and>
         set (type_price m srt view) =
           (\<lambda>k. (k, mean_series m (col price (filter (\<lambda>l. type l = k) view)))) ` type ` set view"
proof -
  have m: "mset (type_price m srt view) = mset (groupby_mean m type price view)"
    using assms by (simp add: type_price_def sort_values_desc_mset)
  then have "mset (map fst (type_price m srt view)) = mset (map fst (groupby_mean m type price view))"
    by simp
  then have "distinct (map fst (type_price m srt view)) \<longleftrightarrow>
      distinct (map fst (groupby_mean m type price view))"
    by (rule mset_eq_imp_distinct_iff)
  then have d: "distinct (map fst (type_price m srt view))"
    by (simp add: groupby_mean_keys)
  have "set (type_price m srt view) = set (groupby_mean m type price view)"
    using m by (rule mset_eq_setD)
  then have s: "set (type_price m srt view) =
      (\<lambda>k. (k, mean_series m (col price (filter (\<lambda>l. type l = k) view)))) ` type ` set view"
    by (simp add: groupby_mean_def col_def)
  show ?thesis
    using assms d s by (simp add: type_price_def sort_values_desc_sorted)
qed

lemma sorts_sort_key: "sorts sort_key"
  by (simp add: sorts_def)

lemma loaded_fields:
  "ad_id (loaded m i t p a) = i" "type (loaded m i t p a) = t"
  "price (loaded m i t p a) = Num p" "area (loaded m i t p a) = Num a"
  "bedrooms (loaded m i t p a) = Num 2" "bathrooms (loaded m i t p a) = Num 1"
  by (simp_all add: ex_defs)

lemma mean_series_examples:
  "mean_series exact_arith [Num 100] = Num 100"
  "mean_series exact_arith [Num 200] = Num 200"
  "mean_series exact_arith [Num 300] = Num 300"
  "mean_series exact_arith [Num 100, Num 200] = Num 150"
  by (simp_all add: mean_series_def fsum_def fdiv_def exact_arith_def)

lemma three_types_groups:
  "col type three_types = [''Villa'', ''Flat'', ''Studio'']"
  "groupby_mean exact_arith type price three_types
     = [(''Flat'', Num 100), (''Studio'', Num 100), (''Villa'', Num 100)]"
  "groupby_mean exact_arith type price (rev three_types)
     = [(''Flat'', Num 100), (''Studio'', Num 100), (''Villa'', Num 100)]"
  "map (\<lambda>k. (k, mean_series exact_arith (col price (filter (\<lambda>r. type r = k) three_types))))
          (first_encountered (col type three_types))
     = [(''Villa'', Num 100), (''Flat'', Num 100), (''Studio'', Num 100)]"
  by (simp_all add: groupby_mean_def first_encountered_def col_def three_types_def
      loaded_fields mean_series_examples less_eq_char_def less_char_def)

lemma four_listings_groups:
  "groupby_mean exact_arith type price four_listings
     = [(''Flat'', Num 200), (''Studio'', Num 300), (''Villa'', Num 150)]"
  by (simp add: groupby_mean_def col_def four_listings_def
      loaded_fields mean_series_examples less_eq_char_def less_char_def)

text \<open>
  Claim C5, as stated, fails on the tie-break: three types of the same mean price,
  first met in the order Villa, Flat, Studio, come out in the order Flat, Studio,
  Villa, where the contract keeps the order in which they were met (on three entries
  the sort of numpy is an insertion sort, which \<open>sort_key\<close> is). The same view
  read backwards gives the same chart: \<^verbatim>\<open>groupby\<close> has put the groups in the order
  of their keys before the sort sees them.
\<close>

theorem type_price_ties_counterexample:
  "col type three_types = [''Villa'', ''Flat'', ''Studio''] \<and>
   type_price exact_arith sort_key three_types
     = [(''Flat'', Num 100), (''Studio'', Num 100), (''Villa'', Num 100)] \<and>
   groupMean_spec exact_arith type price three_types
     = [(''Villa'', Num 100), (''Flat'', Num 100), (''Studio'', Num 100)] \<and>
   type_price exact_arith sort_key (rev three_types) = type_price exact_arith sort_key three_types"
proof -
  have "groupMean_spec exact_arith type price three_types
     = sort_values_desc sort_key [(''Villa'', Num 100), (''Flat'', Num 100), (''Studio'', Num 100)]"
    unfolding groupMean_spec_def by (simp only: three_types_groups(4))
  then have spec: "groupMean_spec exact_arith type price three_types
     = [(''Villa'', Num 100), (''Flat'', Num 100), (''Studio'', Num 100)]"
    by (simp add: sort_values_desc_def)
  have code: "type_price exact_arith sort_key three_types
     = [(''Flat'', Num 100), (''Studio'', Num 100), (''Villa'', Num 100)]"
    "type_price exact_arith sort_key (rev three_types) = type_price exact_arith sort_key three_types"
    unfolding type_price_def three_types_groups(2,3) by (simp_all add: sort_values_desc_def)
  show ?thesis
    by (rule conjI [OF three_types_groups(1) conjI [OF code(1) conjI [OF spec code(2)]]])
qed

theorem type_price_sorted_witness:
  "type_price exact_arith sort_key four_listings
     = [(''Studio'', Num 300), (''Flat'', Num 200), (''Villa'', Num 150)] \<and>
   sorted_wrt descending [(''Studio'', Num 300), (''Flat'', Num 200), (''Villa'', Num 150)]"
proof -
  have "type_price exact_arith sort_key four_listings
     = [(''Studio'', Num 300), (''Flat'', Num 200), (''Villa'', Num 150)]"
    unfolding type_price_def four_listings_groups
    by (simp add: sort_values_desc_def)
  then show ?thesis
    using type_price_sorted [OF sorts_sort_key, of exact_arith four_listings, THEN conjunct1]
    by simp
qed

end
